theory Spec2Isabelle
  imports
    Main
    "HOL-Library.Char_ord"
    "HOL-Library.List_Lexorder"
    "HOL-Library.Product_Lexorder"
    "HOL-Library.Multiset"
begin

section \<open>Announcements endpoints: the data\<close>

text \<open>
  The module \<^verbatim>\<open>backend/routers/announcements.py\<close> holds five request handlers over two
  MongoDB collections, \<^verbatim>\<open>announcements_collection\<close> and \<^verbatim>\<open>teachers_collection\<close>.
  The handlers build Python dictionaries and query documents and hand them to the
  collection objects; what a handler returns is decided by what the collection answers.
  The development below therefore has three layers: the values and documents, the
  collection operations the handlers call, and the handlers themselves, written in the
  order of the source.

  Values. The handlers only ever write strings, \<^verbatim>\<open>None\<close> and object identifiers, so a
  field value is one of these three. An object identifier is kept as the text that
  \<^verbatim>\<open>str\<close> renders it to. Strings are byte lists ordered lexicographically by character
  code, which is the order of Python's \<^verbatim>\<open>str\<close> on ASCII text and of the store's binary
  string comparison.
\<close>

datatype objectid = Oid string

datatype bson = Null | Str string | OidV objectid

text \<open>
  A Python dictionary with string keys is an association list: a key is looked up with
  \<^const>\<open>map_of\<close>, and storing under a key replaces the value in place or appends the
  pair at the end, as assignment to a \<^verbatim>\<open>dict\<close> does.
\<close>

type_synonym document = "(string \<times> bson) list"

fun dict_set :: "string \<Rightarrow> bson \<Rightarrow> document \<Rightarrow> document" where
  "dict_set k v [] = [(k, v)]"
| "dict_set k v (p # ps) = (if fst p = k then (k, v) # ps else p # dict_set k v ps)"

text \<open>
  A document held by a collection always carries an \<^verbatim>\<open>_id\<close>; the remaining fields are
  a dictionary. \<open>to_dict\<close> is the dictionary that the driver hands back for it.
\<close>

record stored =
  doc_id :: bson
  doc_fields :: document

definition to_dict :: "stored \<Rightarrow> document" where
  "to_dict d = (''_id'', doc_id d) # doc_fields d"

definition field :: "stored \<Rightarrow> string \<Rightarrow> bson option" where
  "field d k = map_of (to_dict d) k"

text \<open>\<^verbatim>\<open>str(v)\<close> for the three kinds of value.\<close>

fun py_str :: "bson \<Rightarrow> string" where
  "py_str Null = ''None''"
| "py_str (Str s) = s"
| "py_str (OidV (Oid h)) = h"

section \<open>The document store\<close>

text \<open>
  Query documents. The handlers use three forms of condition on a field,
  \<^verbatim>\<open>{"f": v}\<close>, \<^verbatim>\<open>{"f": {"$gte": v}}\<close> and \<^verbatim>\<open>{"f": {"$lte": v}}\<close>, and the
  connectives \<^verbatim>\<open>$and\<close> and \<^verbatim>\<open>$or\<close> over a list of queries.
\<close>

datatype cond = Eq bson | Gte bson | Lte bson

datatype query = Field string cond | And "query list" | Or "query list"

text \<open>
  The store's matching rules: a condition \<^verbatim>\<open>{"f": None}\<close> holds of a document whose
  field is null and of one that has no such field; equality with any other value needs
  the field to be present and equal; an order comparison only holds between values of
  the same kind (a missing field counting as null), strings being compared
  lexicographically.
\<close>

fun holds :: "bson option \<Rightarrow> cond \<Rightarrow> bool" where
  "holds v (Eq Null) = (v = None \<or> v = Some Null)"
| "holds v (Eq x) = (v = Some x)"
| "holds (Some (Str a)) (Gte (Str b)) = (b \<le> a)"
| "holds (Some (Str a)) (Lte (Str b)) = (a \<le> b)"
| "holds (Some (OidV (Oid a))) (Gte (OidV (Oid b))) = (b \<le> a)"
| "holds (Some (OidV (Oid a))) (Lte (OidV (Oid b))) = (a \<le> b)"
| "holds None (Gte Null) = True"
| "holds None (Lte Null) = True"
| "holds (Some Null) (Gte Null) = True"
| "holds (Some Null) (Lte Null) = True"
| "holds _ (Gte _) = False"
| "holds _ (Lte _) = False"

fun matches :: "query \<Rightarrow> stored \<Rightarrow> bool" where
  "matches (Field k c) d = holds (field d k) c"
| "matches (And qs) d = list_all (\<lambda>q. matches q d) qs"
| "matches (Or qs) d = list_ex (\<lambda>q. matches q d) qs"

text \<open>
  The order the store sorts by: null and missing first, then strings, then object
  identifiers, each kind ordered within itself.
\<close>

fun sort_rank :: "bson option \<Rightarrow> nat \<times> string" where
  "sort_rank None = (0, [])"
| "sort_rank (Some Null) = (0, [])"
| "sort_rank (Some (Str s)) = (1, s)"
| "sort_rank (Some (OidV (Oid h))) = (2, h)"

text \<open>
  The state is the content of the two collections, in insertion order, and the record
  of the calls made to them so far.
\<close>

datatype coll = Announcements | Teachers

datatype call = Find coll | FindOne coll | InsertOne coll | UpdateOne coll | DeleteOne coll

record db =
  announcements_collection :: "stored list"
  teachers_collection :: "stored list"
  calls :: "call list"

fun docs :: "coll \<Rightarrow> db \<Rightarrow> stored list" where
  "docs Announcements st = announcements_collection st"
| "docs Teachers st = teachers_collection st"

fun put_docs :: "coll \<Rightarrow> stored list \<Rightarrow> db \<Rightarrow> db" where
  "put_docs Announcements ds st = st\<lparr>announcements_collection := ds\<rparr>"
| "put_docs Teachers ds st = st\<lparr>teachers_collection := ds\<rparr>"

definition called :: "call \<Rightarrow> db \<Rightarrow> db" where
  "called c st = st\<lparr>calls := calls st @ [c]\<rparr>"

text \<open>
  \<^verbatim>\<open>collection.find(q)\<close>, and \<^verbatim>\<open>collection.find()\<close> when there is no query.
\<close>

definition find_docs :: "coll \<Rightarrow> query option \<Rightarrow> db \<Rightarrow> stored list \<times> db" where
  "find_docs c q st =
     ((case q of None \<Rightarrow> docs c st | Some q' \<Rightarrow> filter (matches q') (docs c st)),
      called (Find c) st)"

text \<open>\<^verbatim>\<open>cursor.sort(key, -1)\<close>: descending by the store's order on field \<open>key\<close>.\<close>

definition sort_desc :: "string \<Rightarrow> stored list \<Rightarrow> stored list" where
  "sort_desc k ds = rev (sort_key (\<lambda>d. sort_rank (field d k)) ds)"

text \<open>\<^verbatim>\<open>collection.find_one(q)\<close>: the first match, or \<^verbatim>\<open>None\<close>.\<close>

definition find_one :: "coll \<Rightarrow> query \<Rightarrow> db \<Rightarrow> stored option \<times> db" where
  "find_one c q st = (List.find (matches q) (docs c st), called (FindOne c) st)"

text \<open>
  \<^verbatim>\<open>collection.insert_one(doc)\<close> for a dictionary without \<^verbatim>\<open>_id\<close>: the driver
  generates the identifier \<open>new_id\<close>. The store keeps \<^verbatim>\<open>_id\<close> unique: when the
  identifier is already taken the call raises a duplicate-key error (\<open>None\<close>) and
  nothing is stored.
\<close>

definition insert_one :: "coll \<Rightarrow> document \<Rightarrow> bson \<Rightarrow> db \<Rightarrow> bson option \<times> db" where
  "insert_one c doc new_id st =
     (if new_id \<in> doc_id ` set (docs c st) then (None, called (InsertOne c) st)
      else (Some new_id,
            called (InsertOne c) (put_docs c (docs c st @ [\<lparr>doc_id = new_id, doc_fields = doc\<rparr>]) st)))"

text \<open>
  \<^verbatim>\<open>collection.update_one(q, {"$set": upd})\<close>: the first match gets every pair of
  \<open>upd\<close> stored in its fields; the answer is \<^verbatim>\<open>matched_count\<close>.
\<close>

definition set_fields :: "document \<Rightarrow> stored \<Rightarrow> stored" where
  "set_fields upd d = d\<lparr>doc_fields := foldl (\<lambda>fs (k, v). dict_set k v fs) (doc_fields d) upd\<rparr>"

fun update_first :: "(stored \<Rightarrow> bool) \<Rightarrow> (stored \<Rightarrow> stored) \<Rightarrow> stored list \<Rightarrow> stored list" where
  "update_first P f [] = []"
| "update_first P f (d # ds) = (if P d then f d # ds else d # update_first P f ds)"

definition update_one :: "coll \<Rightarrow> query \<Rightarrow> document \<Rightarrow> db \<Rightarrow> nat \<times> db" where
  "update_one c q upd st =
     ((if list_ex (matches q) (docs c st) then 1 else 0),
      called (UpdateOne c) (put_docs c (update_first (matches q) (set_fields upd) (docs c st)) st))"

text \<open>
  \<^verbatim>\<open>collection.delete_one(q)\<close>: the first match is removed; the answer is
  \<^verbatim>\<open>deleted_count\<close>.
\<close>

fun remove_first :: "(stored \<Rightarrow> bool) \<Rightarrow> stored list \<Rightarrow> stored list" where
  "remove_first P [] = []"
| "remove_first P (d # ds) = (if P d then ds else d # remove_first P ds)"

definition delete_one :: "coll \<Rightarrow> query \<Rightarrow> db \<Rightarrow> nat \<times> db" where
  "delete_one c q st =
     ((if list_ex (matches q) (docs c st) then 1 else 0),
      called (DeleteOne c) (put_docs c (remove_first (matches q) (docs c st)) st))"

section \<open>The handlers\<close>

text \<open>
  Two library functions decide validity and are parameters of the handlers:
  \<open>ObjectId\<close> is \<^verbatim>\<open>bson.ObjectId\<close> applied to a string, \<open>None\<close> when it raises;
  \<open>fromisoformat\<close> tells whether \<^verbatim>\<open>datetime.fromisoformat\<close> returns rather than
  raising \<^verbatim>\<open>ValueError\<close>. The reading of the clock,
  \<^verbatim>\<open>datetime.utcnow().isoformat()\<close>, is an argument \<open>current_time\<close> of the handlers
  that read it, and the identifier the driver generates for an inserted document is the
  argument \<open>new_id\<close> of create.

  A handler answers with \<open>Inr\<close> of its result or with \<open>Inl\<close> of the
  \<^verbatim>\<open>HTTPException\<close> it raises, status code and detail, together with the state after
  its calls. Every handler wraps its body in \<^verbatim>\<open>try\<close> and turns an exception other than
  \<^verbatim>\<open>HTTPException\<close> into status 500. Two such exceptions can arise from the body
  itself and are branches below: the duplicate-key error of \<^verbatim>\<open>insert_one\<close>, and the
  subscript of \<^verbatim>\<open>None\<close> when the \<^verbatim>\<open>find_one\<close> after an update finds nothing. A
  store that cannot be reached is outside this development: the collection operations
  above always answer.
\<close>

record lib =
  ObjectId :: "string \<Rightarrow> objectid option"
  fromisoformat :: "string \<Rightarrow> bool"

datatype http_error = HTTPException nat string

text \<open>\<^verbatim>\<open>announcement["_id"] = str(announcement["_id"])\<close> on a dictionary from the store.\<close>

definition stringify_id :: "stored \<Rightarrow> document" where
  "stringify_id d = dict_set ''_id'' (Str (py_str (doc_id d))) (to_dict d)"

text \<open>The query of \<^verbatim>\<open>get_active_announcements\<close>.\<close>

definition active_query :: "string \<Rightarrow> query" where
  "active_query current_time =
     And [Field ''end_date'' (Gte (Str current_time)),
          Or [Field ''start_date'' (Eq Null),
              Field ''start_date'' (Lte (Str current_time))]]"

definition get_active_announcements :: "string \<Rightarrow> db \<Rightarrow> (http_error + document list) \<times> db" where
  "get_active_announcements current_time st =
     (case find_docs Announcements (Some (active_query current_time)) st of
        (announcements, st1) \<Rightarrow> (Inr (map stringify_id announcements), st1))"

definition get_all_announcements :: "db \<Rightarrow> (http_error + document list) \<times> db" where
  "get_all_announcements st =
     (case find_docs Announcements None st of
        (found, st1) \<Rightarrow> (Inr (map stringify_id (sort_desc ''created_at'' found)), st1))"

text \<open>\<^verbatim>\<open>s.replace('Z', '+00:00')\<close>.\<close>

definition replace_Z :: "string \<Rightarrow> string" where
  "replace_Z s = concat (map (\<lambda>c. if c = CHR ''Z'' then ''+00:00'' else [c]) s)"

text \<open>
  The date validation shared by create and update: \<open>end_date\<close> is parsed; \<open>start_date\<close>
  is parsed when it is truthy, that is neither \<^verbatim>\<open>None\<close> nor the empty string.
\<close>

definition dates_parse :: "lib \<Rightarrow> string \<Rightarrow> string option \<Rightarrow> bool" where
  "dates_parse l end_date start_date =
     (fromisoformat l (replace_Z end_date) \<and>
      (case start_date of
         None \<Rightarrow> True
       | Some s \<Rightarrow> s = [] \<or> fromisoformat l (replace_Z s)))"

definition opt_str :: "string option \<Rightarrow> bson" where
  "opt_str s = (case s of None \<Rightarrow> Null | Some x \<Rightarrow> Str x)"

definition teacher_query :: "string \<Rightarrow> query" where
  "teacher_query username = Field ''_id'' (Eq (Str username))"

definition id_query :: "objectid \<Rightarrow> query" where
  "id_query obj_id = Field ''_id'' (Eq (OidV obj_id))"

definition create_announcement ::
  "lib \<Rightarrow> string \<Rightarrow> string \<Rightarrow> string \<Rightarrow> string option \<Rightarrow> string \<Rightarrow> objectid \<Rightarrow> db
     \<Rightarrow> (http_error + document) \<times> db" where
  "create_announcement l message end_date username start_date current_time new_id st =
     (case find_one Teachers (teacher_query username) st of
        (teacher, st1) \<Rightarrow>
          if teacher = None then (Inl (HTTPException 401 ''Unauthorized''), st1)
          else if \<not> dates_parse l end_date start_date
          then (Inl (HTTPException 400 ''Invalid date format''), st1)
          else
            let announcement =
                  [(''message'', Str message),
                   (''start_date'', opt_str start_date),
                   (''end_date'', Str end_date),
                   (''created_by'', Str username),
                   (''created_at'', Str current_time)]
            in (case insert_one Announcements announcement (OidV new_id) st1 of
                  (None, st2) \<Rightarrow>
                    (Inl (HTTPException 500 ''Failed to create announcement''), st2)
                | (Some inserted_id, st2) \<Rightarrow>
                    (Inr (dict_set ''_id'' (Str (py_str inserted_id)) announcement), st2)))"

definition update_announcement ::
  "lib \<Rightarrow> string \<Rightarrow> string \<Rightarrow> string \<Rightarrow> string \<Rightarrow> string option \<Rightarrow> db
     \<Rightarrow> (http_error + document) \<times> db" where
  "update_announcement l announcement_id message end_date username start_date st =
     (case find_one Teachers (teacher_query username) st of
        (teacher, st1) \<Rightarrow>
          if teacher = None then (Inl (HTTPException 401 ''Unauthorized''), st1)
          else (case ObjectId l announcement_id of
            None \<Rightarrow> (Inl (HTTPException 400 ''Invalid announcement ID''), st1)
          | Some obj_id \<Rightarrow>
              if \<not> dates_parse l end_date start_date
              then (Inl (HTTPException 400 ''Invalid date format''), st1)
              else
                let update_data =
                      [(''message'', Str message),
                       (''start_date'', opt_str start_date),
                       (''end_date'', Str end_date)]
                in (case update_one Announcements (id_query obj_id) update_data st1 of
                     (matched_count, st2) \<Rightarrow>
                       if matched_count = 0
                       then (Inl (HTTPException 404 ''Announcement not found''), st2)
                       else (case find_one Announcements (id_query obj_id) st2 of
                              (None, st3) \<Rightarrow>
                                (Inl (HTTPException 500 ''Failed to update announcement''), st3)
                            | (Some announcement, st3) \<Rightarrow>
                                (Inr (stringify_id announcement), st3)))))"

definition delete_announcement ::
  "lib \<Rightarrow> string \<Rightarrow> string \<Rightarrow> db \<Rightarrow> (http_error + document) \<times> db" where
  "delete_announcement l announcement_id username st =
     (case find_one Teachers (teacher_query username) st of
        (teacher, st1) \<Rightarrow>
          if teacher = None then (Inl (HTTPException 401 ''Unauthorized''), st1)
          else (case ObjectId l announcement_id of
            None \<Rightarrow> (Inl (HTTPException 400 ''Invalid announcement ID''), st1)
          | Some obj_id \<Rightarrow>
              (case delete_one Announcements (id_query obj_id) st1 of
                 (deleted_count, st2) \<Rightarrow>
                   if deleted_count = 0
                   then (Inl (HTTPException 404 ''Announcement not found''), st2)
                   else (Inr [(''message'', Str ''Announcement deleted successfully'')], st2))))"

section \<open>Reading the store\<close>

text \<open>
  A user is known when the teachers collection holds a document whose \<^verbatim>\<open>_id\<close> is
  the username.
\<close>

definition known_user :: "db \<Rightarrow> string \<Rightarrow> bool" where
  "known_user st username = (Str username \<in> doc_id ` set (teachers_collection st))"

text \<open>
  The two conditions of an active announcement, as the specification words them: the
  end date is not before the current time; the start date is absent (no field, or
  null) or not after the current time. Both compare strings lexicographically and
  include equality.
\<close>

definition end_date_ok :: "string \<Rightarrow> stored \<Rightarrow> bool" where
  "end_date_ok now A =
     (case field A ''end_date'' of Some (Str e) \<Rightarrow> now \<le> e | _ \<Rightarrow> False)"

definition start_date_ok :: "string \<Rightarrow> stored \<Rightarrow> bool" where
  "start_date_ok now A =
     (case field A ''start_date'' of
        None \<Rightarrow> True
      | Some Null \<Rightarrow> True
      | Some (Str s) \<Rightarrow> s \<le> now
      | Some (OidV _) \<Rightarrow> False)"

section \<open>A concrete library and a concrete store\<close>

text \<open>
  The closed examples below run the handlers with the following instance of the two
  library functions. \<open>hex_ObjectId\<close> accepts a string of 24 hexadecimal digits and
  yields the identifier that \<^verbatim>\<open>str\<close> prints in lower case. \<open>iso_fromisoformat\<close>
  accepts the shapes \<^verbatim>\<open>YYYY-MM-DD\<close>, \<^verbatim>\<open>YYYY-MM-DD?HH:MM:SS\<close> and
  \<^verbatim>\<open>YYYY-MM-DD?HH:MM:SS+HH:MM\<close> (any separator character, either sign) with fields
  in range. These are strings that \<^verbatim>\<open>datetime.fromisoformat\<close> accepts; the strings the
  examples let it reject are the empty string and words without digits.
\<close>

definition hex_digit :: "char \<Rightarrow> bool" where
  "hex_digit c = (c \<in> set ''0123456789abcdefABCDEF'')"

definition lower_hex :: "char \<Rightarrow> char" where
  "lower_hex c =
     (if c = CHR ''A'' then CHR ''a'' else if c = CHR ''B'' then CHR ''b''
      else if c = CHR ''C'' then CHR ''c'' else if c = CHR ''D'' then CHR ''d''
      else if c = CHR ''E'' then CHR ''e'' else if c = CHR ''F'' then CHR ''f'' else c)"

definition hex_ObjectId :: "string \<Rightarrow> objectid option" where
  "hex_ObjectId s =
     (if length s = 24 \<and> list_all hex_digit s then Some (Oid (map lower_hex s)) else None)"

definition digit :: "char \<Rightarrow> bool" where
  "digit c = (c \<in> set ''0123456789'')"

definition number :: "string \<Rightarrow> nat" where
  "number s = foldl (\<lambda>n c. 10 * n + (of_char c - 48)) 0 s"

definition days_in_month :: "nat \<Rightarrow> nat \<Rightarrow> nat" where
  "days_in_month y m =
     (if m = 2 then (if y mod 4 = 0 \<and> (y mod 100 \<noteq> 0 \<or> y mod 400 = 0) then 29 else 28)
      else if m \<in> {4, 6, 9, 11} then 30 else 31)"

definition iso_date :: "string \<Rightarrow> bool" where
  "iso_date s =
     (length s = 10 \<and> list_all digit (take 4 s @ take 2 (drop 5 s) @ drop 8 s) \<and>
      s ! 4 = CHR ''-'' \<and> s ! 7 = CHR ''-'' \<and>
      (let y = number (take 4 s); m = number (take 2 (drop 5 s)); d = number (drop 8 s)
       in 1 \<le> y \<and> 1 \<le> m \<and> m \<le> 12 \<and> 1 \<le> d \<and> d \<le> days_in_month y m))"

definition iso_time :: "string \<Rightarrow> bool" where
  "iso_time s =
     (length s = 8 \<and> list_all digit (take 2 s @ take 2 (drop 3 s) @ drop 6 s) \<and>
      s ! 2 = CHR '':'' \<and> s ! 5 = CHR '':'' \<and>
      number (take 2 s) < 24 \<and> number (take 2 (drop 3 s)) < 60 \<and> number (drop 6 s) < 60)"

definition iso_offset :: "string \<Rightarrow> bool" where
  "iso_offset s =
     (length s = 6 \<and> s ! 0 \<in> set ''+-'' \<and> list_all digit (take 2 (drop 1 s) @ drop 4 s) \<and>
      s ! 3 = CHR '':'' \<and> number (take 2 (drop 1 s)) < 24 \<and> number (drop 4 s) < 60)"

definition iso_fromisoformat :: "string \<Rightarrow> bool" where
  "iso_fromisoformat s =
     (iso_date s \<or>
      (length s = 19 \<and> iso_date (take 10 s) \<and> iso_time (drop 11 s)) \<or>
      (length s = 25 \<and> iso_date (take 10 s) \<and> iso_time (take 8 (drop 11 s)) \<and>
       iso_offset (drop 19 s)))"

definition py :: lib where
  "py = \<lparr>ObjectId = hex_ObjectId, fromisoformat = iso_fromisoformat\<rparr>"

text \<open>
  A store with one teacher and two announcements: the first has no start date and ends
  in 2030, the second runs through January 2025.
\<close>

definition science_fair :: stored where
  "science_fair =
     \<lparr>doc_id = OidV (Oid ''65f1c0ffee65f1c0ffee0001''),
      doc_fields =
        [(''message'', Str ''Science fair''),
         (''start_date'', Null),
         (''end_date'', Str ''2030-06-30T00:00:00''),
         (''created_by'', Str ''mrodriguez''),
         (''created_at'', Str ''2024-01-10T08:00:00'')]\<rparr>"

definition exam_week :: stored where
  "exam_week =
     \<lparr>doc_id = OidV (Oid ''65f1c0ffee65f1c0ffee0002''),
      doc_fields =
        [(''message'', Str ''Exam week''),
         (''start_date'', Str ''2025-01-01T00:00:00''),
         (''end_date'', Str ''2025-01-31T00:00:00''),
         (''created_by'', Str ''mrodriguez''),
         (''created_at'', Str ''2024-03-05T09:30:00'')]\<rparr>"

definition school :: db where
  "school =
     \<lparr>announcements_collection = [science_fair, exam_week],
      teachers_collection =
        [\<lparr>doc_id = Str ''mrodriguez'', doc_fields = [(''display_name'', Str ''Ms. Rodriguez'')]\<rparr>],
      calls = []\<rparr>"

section \<open>Properties\<close>

subsection \<open>The store operations\<close>

lemma field_id: "field d ''_id'' = Some (doc_id d)"
  by (simp add: field_def to_dict_def)

lemma holds_Gte_Str: "holds v (Gte (Str b)) = (case v of Some (Str a) \<Rightarrow> b \<le> a | _ \<Rightarrow> False)"
  by (cases "(v, Gte (Str b))" rule: holds.cases) auto

lemma holds_Lte_Str: "holds v (Lte (Str b)) = (case v of Some (Str a) \<Rightarrow> a \<le> b | _ \<Rightarrow> False)"
  by (cases "(v, Lte (Str b))" rule: holds.cases) auto

lemma matches_teacher_query: "matches (teacher_query u) d = (doc_id d = Str u)"
  by (simp add: teacher_query_def field_id)

lemma matches_id_query: "matches (id_query i) d = (doc_id d = OidV i)"
  by (simp add: id_query_def field_id)

lemma find_teacher_None:
  "fst (find_one Teachers (teacher_query u) st) = None \<longleftrightarrow> \<not> known_user st u"
  by (force simp: find_one_def find_None_iff matches_teacher_query known_user_def image_iff)

lemma stringify_id_eq: "stringify_id d = (''_id'', Str (py_str (doc_id d))) # doc_fields d"
  by (simp add: stringify_id_def to_dict_def)

subsection \<open>Unknown user\<close>

lemma create_unauthorized:
  "\<not> known_user st u \<Longrightarrow>
   create_announcement l m e u s now i st =
     (Inl (HTTPException 401 ''Unauthorized''), called (FindOne Teachers) st)"
  using find_teacher_None [of u st]
  by (simp add: create_announcement_def find_one_def)

lemma update_unauthorized:
  "\<not> known_user st u \<Longrightarrow>
   update_announcement l a m e u s st =
     (Inl (HTTPException 401 ''Unauthorized''), called (FindOne Teachers) st)"
  using find_teacher_None [of u st]
  by (simp add: update_announcement_def find_one_def)

lemma delete_unauthorized:
  "\<not> known_user st u \<Longrightarrow>
   delete_announcement l a u st =
     (Inl (HTTPException 401 ''Unauthorized''), called (FindOne Teachers) st)"
  using find_teacher_None [of u st]
  by (simp add: delete_announcement_def find_one_def)

lemma called_simps:
  "announcements_collection (called c st) = announcements_collection st"
  "teachers_collection (called c st) = teachers_collection st"
  "calls (called c st) = calls st @ [c]"
  by (simp_all add: called_def)

subsection \<open>Known user\<close>

lemma create_known:
  "known_user st u \<Longrightarrow>
   create_announcement l m e u s now i st =
     (if \<not> dates_parse l e s
      then (Inl (HTTPException 400 ''Invalid date format''), called (FindOne Teachers) st)
      else if OidV i \<in> doc_id ` set (announcements_collection st)
      then (Inl (HTTPException 500 ''Failed to create announcement''),
            called (InsertOne Announcements) (called (FindOne Teachers) st))
      else (Inr [(''message'', Str m), (''start_date'', opt_str s), (''end_date'', Str e),
                 (''created_by'', Str u), (''created_at'', Str now),
                 (''_id'', Str (py_str (OidV i)))],
            called (InsertOne Announcements)
              ((called (FindOne Teachers) st)
                 \<lparr>announcements_collection := announcements_collection st @
                    [\<lparr>doc_id = OidV i,
                      doc_fields = [(''message'', Str m), (''start_date'', opt_str s),
                        (''end_date'', Str e), (''created_by'', Str u),
                        (''created_at'', Str now)]\<rparr>]\<rparr>)))"
  using find_teacher_None [of u st]
  by (simp add: create_announcement_def find_one_def insert_one_def called_simps)

lemma update_known_bad_id:
  "known_user st u \<Longrightarrow> ObjectId l a = None \<Longrightarrow>
   update_announcement l a m e u s st =
     (Inl (HTTPException 400 ''Invalid announcement ID''), called (FindOne Teachers) st)"
  using find_teacher_None [of u st]
  by (simp add: update_announcement_def find_one_def)

lemma delete_known_bad_id:
  "known_user st u \<Longrightarrow> ObjectId l a = None \<Longrightarrow>
   delete_announcement l a u st =
     (Inl (HTTPException 400 ''Invalid announcement ID''), called (FindOne Teachers) st)"
  using find_teacher_None [of u st]
  by (simp add: delete_announcement_def find_one_def)

lemma update_known_bad_dates:
  "known_user st u \<Longrightarrow> ObjectId l a = Some i \<Longrightarrow> \<not> dates_parse l e s \<Longrightarrow>
   update_announcement l a m e u s st =
     (Inl (HTTPException 400 ''Invalid date format''), called (FindOne Teachers) st)"
  using find_teacher_None [of u st]
  by (simp add: update_announcement_def find_one_def)

subsection \<open>Example facts\<close>

lemma known_mrodriguez: "known_user school ''mrodriguez''"
  by (simp add: known_user_def school_def)

lemma unknown_nobody: "\<not> known_user school ''nobody''"
  by (simp add: known_user_def school_def)

lemma py_bad_id: "ObjectId py ''not-an-id'' = None"
  by (simp add: py_def hex_ObjectId_def)

lemma py_good_id: "ObjectId py ''65F1C0FFEE65F1C0FFEE0002'' = Some (Oid ''65f1c0ffee65f1c0ffee0002'')"
  by (simp add: py_def hex_ObjectId_def hex_digit_def lower_hex_def)

lemma py_iso_ok: "fromisoformat py (replace_Z ''2030-06-30T00:00:00Z'')"
  unfolding py_def lib.simps by code_simp

lemma py_iso_empty: "\<not> fromisoformat py (replace_Z [])"
  unfolding py_def lib.simps by code_simp

lemma py_iso_word: "\<not> fromisoformat py (replace_Z ''tomorrow'')"
  unfolding py_def lib.simps by code_simp

subsection \<open>Dictionaries\<close>

lemma map_of_dict_set: "map_of (dict_set k v ps) = (map_of ps)(k \<mapsto> v)"
  by (induction ps) (auto simp: fun_eq_iff)

lemma doc_id_set_fields: "doc_id (set_fields upd d) = doc_id d"
  by (simp add: set_fields_def)

lemma field_set_fields3:
  "field (set_fields [(a, x), (b, y), (c, z)] d) k =
     (if k = ''_id'' then Some (doc_id d)
      else if k = c then Some z else if k = b then Some y else if k = a then Some x
      else field d k)"
  by (simp add: set_fields_def field_def to_dict_def map_of_dict_set)

subsection \<open>First match\<close>

lemma update_first_none: "\<forall>x\<in>set xs. \<not> P x \<Longrightarrow> update_first P f xs = xs"
  by (induction xs) auto

lemma remove_first_none: "\<forall>x\<in>set xs. \<not> P x \<Longrightarrow> remove_first P xs = xs"
  by (induction xs) auto

lemma find_first: "\<forall>x\<in>set pre. \<not> P x \<Longrightarrow> P d \<Longrightarrow> List.find P (pre @ d # post) = Some d"
  by (induction pre) auto

subsection \<open>Update and delete with a known user and a valid identifier\<close>

lemma update_known_absent:
  assumes "known_user st u" "ObjectId l a = Some i" "dates_parse l e s"
    and "OidV i \<notin> doc_id ` set (announcements_collection st)"
  shows "update_announcement l a m e u s st =
     (Inl (HTTPException 404 ''Announcement not found''),
      called (UpdateOne Announcements) (called (FindOne Teachers) st))"
proof -
  have no: "\<forall>x\<in>set (announcements_collection st). \<not> matches (id_query i) x"
    using assms(4) by (force simp: matches_id_query image_iff)
  then have ex: "\<not> list_ex (matches (id_query i)) (announcements_collection st)"
    by (simp add: list_ex_iff)
  have "(called (FindOne Teachers) st)\<lparr>announcements_collection := announcements_collection st\<rparr>
      = called (FindOne Teachers) st"
    by (simp add: called_def)
  with ex update_first_none [OF no] find_teacher_None [of u st] assms(1-3) show ?thesis
    by (simp add: update_announcement_def find_one_def update_one_def called_simps)
qed

lemma delete_known_absent:
  assumes "known_user st u" "ObjectId l a = Some i"
    and "OidV i \<notin> doc_id ` set (announcements_collection st)"
  shows "delete_announcement l a u st =
     (Inl (HTTPException 404 ''Announcement not found''),
      called (DeleteOne Announcements) (called (FindOne Teachers) st))"
proof -
  have no: "\<forall>x\<in>set (announcements_collection st). \<not> matches (id_query i) x"
    using assms(3) by (force simp: matches_id_query image_iff)
  then have ex: "\<not> list_ex (matches (id_query i)) (announcements_collection st)"
    by (simp add: list_ex_iff)
  have "(called (FindOne Teachers) st)\<lparr>announcements_collection := announcements_collection st\<rparr>
      = called (FindOne Teachers) st"
    by (simp add: called_def)
  with ex remove_first_none [OF no] find_teacher_None [of u st] assms(1-2) show ?thesis
    by (simp add: delete_announcement_def find_one_def delete_one_def called_simps)
qed

lemma find_teacher_Some:
  "known_user st u \<Longrightarrow> \<exists>t. find_one Teachers (teacher_query u) st = (Some t, called (FindOne Teachers) st)"
  using find_teacher_None [of u st] by (auto simp: find_one_def)



lemma find_one_present:
  assumes pre': "\<forall>x\<in>set pre. \<not> matches q x" and m': "matches q d'"
  shows "find_one Announcements q (called c (st1\<lparr>announcements_collection := pre @ d' # post\<rparr>))
     = (Some d', called (FindOne Announcements) (called c (st1\<lparr>announcements_collection := pre @ d' # post\<rparr>)))"
  using find_first [OF pre' m', of post] by (simp add: find_one_def called_simps)


lemma update_one_present:
  assumes split: "announcements_collection st1 = pre @ d # post"
    and pre': "\<forall>x\<in>set pre. \<not> matches q x" and d': "matches q d"
  shows "update_one Announcements q upd st1 =
     (1, called (UpdateOne Announcements) (st1\<lparr>announcements_collection := pre @ set_fields upd d # post\<rparr>))"
proof -
  have upd1: "update_first (matches q) (set_fields upd) (pre @ d # post) = pre @ set_fields upd d # post"
    using pre' d' by (induction pre) auto
  have lex: "list_ex (matches q) (pre @ d # post)"
    using d' by (simp add: list_ex_iff)
  show ?thesis
    using upd1 lex by (simp add: update_one_def split)
qed

lemma update_known_present:
  assumes known: "known_user st u" and i: "ObjectId l a = Some i" and dates: "dates_parse l e s"
    and split: "announcements_collection st = pre @ d # post"
    and pre: "\<forall>x\<in>set pre. doc_id x \<noteq> OidV i" and d: "doc_id d = OidV i"
    and upd: "upd = [(''message'', Str m), (''start_date'', opt_str s), (''end_date'', Str e)]"
  shows "update_announcement l a m e u s st =
      (Inr (stringify_id (set_fields upd d)),
       called (FindOne Announcements) (called (UpdateOne Announcements)
         ((called (FindOne Teachers) st)\<lparr>announcements_collection := pre @ set_fields upd d # post\<rparr>)))"
proof -
  let ?q = "id_query i"
  let ?st1 = "called (FindOne Teachers) st"
  from find_teacher_Some [OF known] obtain t where
    t: "find_one Teachers (teacher_query u) st = (Some t, ?st1)" by blast
  have pre': "\<forall>x\<in>set pre. \<not> matches ?q x" using pre by (simp add: matches_id_query)
  have d': "matches ?q d" using d by (simp add: matches_id_query)
  have s1: "announcements_collection ?st1 = pre @ d # post"
    by (simp add: called_simps split)
  have m': "matches ?q (set_fields upd d)"
    using d by (simp add: matches_id_query doc_id_set_fields)
  note u1 = update_one_present [OF s1 pre' d', of upd]
  note f2 = find_one_present [OF pre' m', where c = "UpdateOne Announcements" and ?st1.0 = ?st1 and post = post]
  show ?thesis
    unfolding update_announcement_def t upd [symmetric] using i dates
    by (simp add: u1 f2 Let_def)
qed


lemma update_success:
  assumes "update_announcement l a m e u s st = (Inr r, st')"
  shows "\<exists>i pre d post.
     ObjectId l a = Some i \<and> known_user st u \<and> dates_parse l e s \<and>
     announcements_collection st = pre @ d # post \<and>
     (\<forall>x\<in>set pre. doc_id x \<noteq> OidV i) \<and> doc_id d = OidV i \<and>
     announcements_collection st' =
       pre @ set_fields [(''message'', Str m), (''start_date'', opt_str s), (''end_date'', Str e)] d # post \<and>
     teachers_collection st' = teachers_collection st \<and>
     r = stringify_id
           (set_fields [(''message'', Str m), (''start_date'', opt_str s), (''end_date'', Str e)] d)"
proof -
  let ?upd = "[(''message'', Str m), (''start_date'', opt_str s), (''end_date'', Str e)]"
  from assms have known: "known_user st u"
    using update_unauthorized [of st u l a m e s] by (cases "known_user st u") auto
  from assms known obtain i where i: "ObjectId l a = Some i"
    using update_known_bad_id [of st u l a m e s] by (cases "ObjectId l a") auto
  from assms known i have dates: "dates_parse l e s"
    using update_known_bad_dates [of st u l a i e s m] by (cases "dates_parse l e s") auto
  from assms known i dates have "OidV i \<in> doc_id ` set (announcements_collection st)"
    using update_known_absent [of st u l a i e s m]
    by (cases "OidV i \<in> doc_id ` set (announcements_collection st)") auto
  then have "\<exists>x\<in>set (announcements_collection st). doc_id x = OidV i"
    by auto
  from split_list_first_prop [OF this] obtain pre d post where
    h: "announcements_collection st = pre @ d # post" "doc_id d = OidV i"
       "\<forall>x\<in>set pre. doc_id x \<noteq> OidV i"
    by blast
  from update_known_present [OF known i dates h(1) h(3) h(2) refl, of m] assms
  have r: "r = stringify_id (set_fields ?upd d)"
    and st': "st' = called (FindOne Announcements) (called (UpdateOne Announcements)
         ((called (FindOne Teachers) st)\<lparr>announcements_collection := pre @ set_fields ?upd d # post\<rparr>))"
    by simp_all
  have c: "announcements_collection st' = pre @ set_fields ?upd d # post"
    "teachers_collection st' = teachers_collection st"
    by (simp_all add: st' called_simps)
  show ?thesis
    using i known dates h r c by blast
qed

subsection \<open>Sorting\<close>

lemma get_all_announcements_eq:
  "get_all_announcements st =
     (Inr (map stringify_id (sort_desc ''created_at'' (announcements_collection st))),
      called (Find Announcements) st)"
  by (simp add: get_all_announcements_def find_docs_def)

lemma sort_desc_sorted:
  "sorted_wrt (\<lambda>a b. sort_rank (field b k) \<le> sort_rank (field a k)) (sort_desc k ds)"
proof -
  have "sorted (map (\<lambda>d. sort_rank (field d k)) (sort_key (\<lambda>d. sort_rank (field d k)) ds))"
    by (rule sorted_sort_key)
  then have "sorted_wrt (\<lambda>a b. sort_rank (field a k) \<le> sort_rank (field b k))
      (sort_key (\<lambda>d. sort_rank (field d k)) ds)"
    by (simp add: sorted_map)
  then show ?thesis
    by (simp add: sort_desc_def sorted_wrt_rev)
qed

lemma mset_sort_desc: "mset (sort_desc k ds) = mset ds"
  by (simp add: sort_desc_def)

lemma set_sort_desc: "set (sort_desc k ds) = set ds"
  by (simp add: sort_desc_def)

lemma map_of_stringify_id:
  "map_of (stringify_id d) k = (if k = ''_id'' then Some (Str (py_str (doc_id d))) else field d k)"
  by (simp add: stringify_id_eq field_def to_dict_def)

subsection \<open>Active announcements\<close>

lemma matches_active_query:
  "matches (active_query now) A = (end_date_ok now A \<and> start_date_ok now A)"
  by (auto simp: active_query_def end_date_ok_def start_date_ok_def holds_Gte_Str holds_Lte_Str
      split: option.splits bson.splits)

lemma get_active_announcements_eq:
  "get_active_announcements now st =
     (Inr (map stringify_id
        (filter (\<lambda>A. end_date_ok now A \<and> start_date_ok now A) (announcements_collection st))),
      called (Find Announcements) st)"
proof -
  have "matches (active_query now) = (\<lambda>A. end_date_ok now A \<and> start_date_ok now A)"
    by (rule ext) (rule matches_active_query)
  then show ?thesis
    by (simp add: get_active_announcements_def find_docs_def)
qed

lemma date_conditions_fields:
  "doc_fields A = doc_fields B \<Longrightarrow>
   end_date_ok now A = end_date_ok now B \<and> start_date_ok now A = start_date_ok now B"
  by (simp add: end_date_ok_def start_date_ok_def field_def to_dict_def)

text \<open>
  Claim C1. For every announcement \<open>A\<close> of the store and every current time \<open>now\<close>,
  \<open>A\<close> is in the answer of \<^verbatim>\<open>get_active_announcements\<close> (with its identifier
  rendered as a string) if and only if its end date is at or after \<open>now\<close> and its start
  date is absent or at or before \<open>now\<close>; both comparisons are lexicographic on the
  strings and include equality. The call itself always answers with a list.
\<close>

theorem get_active_announcements_iff:
  assumes "A \<in> set (announcements_collection st)"
  shows "\<exists>out. fst (get_active_announcements now st) = Inr out \<and>
           (stringify_id A \<in> set out \<longleftrightarrow> end_date_ok now A \<and> start_date_ok now A)"
proof -
  let ?P = "\<lambda>A. end_date_ok now A \<and> start_date_ok now A"
  let ?out = "map stringify_id (filter ?P (announcements_collection st))"
  have res: "fst (get_active_announcements now st) = Inr ?out"
    by (simp add: get_active_announcements_eq)
  have "stringify_id A \<in> set ?out \<longleftrightarrow> ?P A"
  proof
    assume "stringify_id A \<in> set ?out"
    then obtain B where B: "?P B" "stringify_id B = stringify_id A" by auto
    from B(2) have "doc_fields B = doc_fields A" by (simp add: stringify_id_eq)
    from date_conditions_fields [OF this, of now] B(1) show "?P A" by simp
  next
    assume "?P A" with assms show "stringify_id A \<in> set ?out" by auto
  qed
  with res show ?thesis by blast
qed

lemma exam_week_ok:
  "end_date_ok ''2025-01-31T00:00:00'' exam_week"
  "start_date_ok ''2025-01-31T00:00:00'' exam_week"
  "end_date_ok ''2025-01-01T00:00:00'' exam_week"
  "start_date_ok ''2025-01-01T00:00:00'' exam_week"
  "\<not> start_date_ok ''2024-12-31T23:59:59'' exam_week"
  "\<not> end_date_ok ''2025-01-31T00:00:01'' exam_week"
  by (simp_all add: end_date_ok_def start_date_ok_def exam_week_def field_def to_dict_def)

theorem get_active_announcements_iff_witness:
  "exam_week \<in> set (announcements_collection school) \<and>
   end_date_ok ''2025-01-31T00:00:00'' exam_week \<and>
   start_date_ok ''2025-01-31T00:00:00'' exam_week \<and>
   (\<exists>out. fst (get_active_announcements ''2025-01-31T00:00:00'' school) = Inr out \<and>
      stringify_id exam_week \<in> set out)"
proof -
  have h: "exam_week \<in> set (announcements_collection school)"
    by (simp add: school_def)
  from get_active_announcements_iff [OF h, of "''2025-01-31T00:00:00''"] h exam_week_ok(1,2)
  show ?thesis by blast
qed

subsection \<open>Example calls\<close>

lemma py_dates_ok: "dates_parse py ''2030-06-30T00:00:00Z'' None"
  using py_iso_ok by (simp add: dates_parse_def)

lemma py_dates_empty_start: "dates_parse py ''2030-06-30T00:00:00Z'' (Some [])"
  using py_iso_ok by (simp add: dates_parse_def)

lemma py_dates_word: "\<not> dates_parse py ''tomorrow'' None"
  using py_iso_word by (simp add: dates_parse_def)

lemma py_absent_id: "ObjectId py ''65f1c0ffee65f1c0ffee0009'' = Some (Oid ''65f1c0ffee65f1c0ffee0009'')"
  by (simp add: py_def hex_ObjectId_def hex_digit_def lower_hex_def)

lemma school_ids:
  "doc_id ` set (announcements_collection school) =
     {OidV (Oid ''65f1c0ffee65f1c0ffee0001''), OidV (Oid ''65f1c0ffee65f1c0ffee0002'')}"
  by (simp add: school_def science_fair_def exam_week_def)

text \<open>
  Claim C3. When no teacher document has the given username, \<^verbatim>\<open>create_announcement\<close>
  fails with status 401 (Unauthorized) and persists nothing: the announcements
  collection is as before, and the only call to the store is the teacher lookup.
\<close>

theorem create_unknown_user:
  assumes "\<not> known_user st username"
  shows "fst (create_announcement l message end_date username start_date now new_id st)
           = Inl (HTTPException 401 ''Unauthorized'') \<and>
         announcements_collection
           (snd (create_announcement l message end_date username start_date now new_id st))
           = announcements_collection st \<and>
         calls (snd (create_announcement l message end_date username start_date now new_id st))
           = calls st @ [FindOne Teachers]"
  by (simp add: create_unauthorized [OF assms] called_simps)

theorem create_unknown_user_witness:
  "\<not> known_user school ''nobody'' \<and>
   fst (create_announcement py ''Picnic'' ''2030-06-30T00:00:00Z'' ''nobody'' None
          ''2025-01-01T00:00:00'' (Oid ''65f1c0ffee65f1c0ffee0003'') school)
     = Inl (HTTPException 401 ''Unauthorized'') \<and>
   announcements_collection
     (snd (create_announcement py ''Picnic'' ''2030-06-30T00:00:00Z'' ''nobody'' None
          ''2025-01-01T00:00:00'' (Oid ''65f1c0ffee65f1c0ffee0003'') school))
     = [science_fair, exam_week]"
  using unknown_nobody create_unknown_user [OF unknown_nobody, of py "''Picnic''"
      "''2030-06-30T00:00:00Z''" None "''2025-01-01T00:00:00''" "Oid ''65f1c0ffee65f1c0ffee0003''"]
  by (simp add: school_def)

text \<open>
  Claim C10. In create, update and delete the username is checked before the identifier
  and the dates are validated: with an unknown username the answer is status 401
  whatever the identifier and the dates are, in particular when they are malformed,
  and never status 400.
\<close>

theorem unknown_user_before_validation:
  assumes "\<not> known_user st username"
  shows "fst (create_announcement l message end_date username start_date now new_id st)
           = Inl (HTTPException 401 ''Unauthorized'') \<and>
         fst (update_announcement l announcement_id message end_date username start_date st)
           = Inl (HTTPException 401 ''Unauthorized'') \<and>
         fst (delete_announcement l announcement_id username st)
           = Inl (HTTPException 401 ''Unauthorized'')"
  by (simp add: create_unauthorized [OF assms] update_unauthorized [OF assms]
      delete_unauthorized [OF assms])

theorem unknown_user_before_validation_witness:
  "\<not> known_user school ''nobody'' \<and> ObjectId py ''not-an-id'' = None \<and>
   \<not> fromisoformat py (replace_Z ''tomorrow'') \<and>
   fst (create_announcement py ''Picnic'' ''tomorrow'' ''nobody'' None
          ''2025-01-01T00:00:00'' (Oid ''65f1c0ffee65f1c0ffee0003'') school)
     = Inl (HTTPException 401 ''Unauthorized'') \<and>
   fst (update_announcement py ''not-an-id'' ''Picnic'' ''tomorrow'' ''nobody'' None school)
     = Inl (HTTPException 401 ''Unauthorized'') \<and>
   fst (delete_announcement py ''not-an-id'' ''nobody'' school)
     = Inl (HTTPException 401 ''Unauthorized'')"
  using unknown_nobody py_bad_id py_iso_word
    unknown_user_before_validation [OF unknown_nobody, of py "''Picnic''" "''tomorrow''" None
      "''2025-01-01T00:00:00''" "Oid ''65f1c0ffee65f1c0ffee0003''" "''not-an-id''"]
  by simp

text \<open>
  Claim C2. The claim reads: update or delete with a syntactically invalid identifier
  fails with status 400 before any access to the store. On the code the teacher lookup
  comes first. With an unknown username the answer for an invalid identifier is 401,
  and with a known username the teachers collection has been read by the time the 400
  is raised:
\<close>

theorem invalid_id_counterexample:
  "ObjectId py ''not-an-id'' = None \<and>
   fst (update_announcement py ''not-an-id'' ''Picnic'' ''2030-06-30T00:00:00Z'' ''nobody'' None school)
     = Inl (HTTPException 401 ''Unauthorized'') \<and>
   fst (delete_announcement py ''not-an-id'' ''nobody'' school)
     = Inl (HTTPException 401 ''Unauthorized'') \<and>
   fst (delete_announcement py ''not-an-id'' ''mrodriguez'' school)
     = Inl (HTTPException 400 ''Invalid announcement ID'') \<and>
   calls school = [] \<and>
   calls (snd (delete_announcement py ''not-an-id'' ''mrodriguez'' school)) = [FindOne Teachers]"
  by (simp add: py_bad_id update_unauthorized [OF unknown_nobody]
      delete_unauthorized [OF unknown_nobody]
      delete_known_bad_id [OF known_mrodriguez py_bad_id] called_simps)
    (simp add: school_def)

text \<open>
  Claim C2, amended. When the username is known and the identifier is syntactically
  invalid, update and delete fail with status 400 (invalid announcement ID); the
  announcements collection is neither read nor written, and the one call made to the
  store before the failure is the lookup of the username in the teachers collection.
\<close>

theorem invalid_id_rejected:
  assumes "known_user st username" and "ObjectId l announcement_id = None"
  shows "fst (update_announcement l announcement_id message end_date username start_date st)
           = Inl (HTTPException 400 ''Invalid announcement ID'') \<and>
         announcements_collection
           (snd (update_announcement l announcement_id message end_date username start_date st))
           = announcements_collection st \<and>
         calls (snd (update_announcement l announcement_id message end_date username start_date st))
           = calls st @ [FindOne Teachers] \<and>
         fst (delete_announcement l announcement_id username st)
           = Inl (HTTPException 400 ''Invalid announcement ID'') \<and>
         announcements_collection (snd (delete_announcement l announcement_id username st))
           = announcements_collection st \<and>
         calls (snd (delete_announcement l announcement_id username st))
           = calls st @ [FindOne Teachers]"
  by (simp add: update_known_bad_id [OF assms] delete_known_bad_id [OF assms] called_simps)

theorem invalid_id_rejected_witness:
  "known_user school ''mrodriguez'' \<and> ObjectId py ''not-an-id'' = None \<and>
   fst (update_announcement py ''not-an-id'' ''Picnic'' ''2030-06-30T00:00:00Z'' ''mrodriguez'' None school)
     = Inl (HTTPException 400 ''Invalid announcement ID'') \<and>
   calls (snd (update_announcement py ''not-an-id'' ''Picnic'' ''2030-06-30T00:00:00Z'' ''mrodriguez'' None school))
     = [FindOne Teachers] \<and>
   fst (delete_announcement py ''not-an-id'' ''mrodriguez'' school)
     = Inl (HTTPException 400 ''Invalid announcement ID'') \<and>
   announcements_collection (snd (delete_announcement py ''not-an-id'' ''mrodriguez'' school))
     = [science_fair, exam_week]"
  using known_mrodriguez py_bad_id
    invalid_id_rejected [OF known_mrodriguez py_bad_id, of "''Picnic''" "''2030-06-30T00:00:00Z''" None]
  by (simp add: school_def)

lemma dates_parse_bad:
  assumes "\<not> fromisoformat l (replace_Z end_date) \<or>
           (\<exists>s. start_date = Some s \<and> s \<noteq> [] \<and> \<not> fromisoformat l (replace_Z s))"
  shows "\<not> dates_parse l end_date start_date"
  using assms by (auto simp: dates_parse_def)

text \<open>
  Claim C4. The claim reads: create or update whose end date, or supplied start date,
  does not parse fails with status 400 and persists nothing. On the code a start date is
  parsed only when it is truthy, so a start date supplied as the empty string, which
  does not parse, is accepted and stored:
\<close>

theorem empty_start_date_counterexample:
  "known_user school ''mrodriguez'' \<and>
   fromisoformat py (replace_Z ''2030-06-30T00:00:00Z'') \<and>
   \<not> fromisoformat py (replace_Z '''') \<and>
   fst (create_announcement py ''Picnic'' ''2030-06-30T00:00:00Z'' ''mrodriguez'' (Some '''')
          ''2025-01-01T00:00:00'' (Oid ''65f1c0ffee65f1c0ffee0003'') school)
     = Inr [(''message'', Str ''Picnic''), (''start_date'', Str ''''),
            (''end_date'', Str ''2030-06-30T00:00:00Z''), (''created_by'', Str ''mrodriguez''),
            (''created_at'', Str ''2025-01-01T00:00:00''),
            (''_id'', Str ''65f1c0ffee65f1c0ffee0003'')] \<and>
   announcements_collection
     (snd (create_announcement py ''Picnic'' ''2030-06-30T00:00:00Z'' ''mrodriguez'' (Some '''')
          ''2025-01-01T00:00:00'' (Oid ''65f1c0ffee65f1c0ffee0003'') school))
     = [science_fair, exam_week,
        \<lparr>doc_id = OidV (Oid ''65f1c0ffee65f1c0ffee0003''),
         doc_fields =
           [(''message'', Str ''Picnic''), (''start_date'', Str ''''),
            (''end_date'', Str ''2030-06-30T00:00:00Z''), (''created_by'', Str ''mrodriguez''),
            (''created_at'', Str ''2025-01-01T00:00:00'')]\<rparr>]"
proof -
  have "OidV (Oid ''65f1c0ffee65f1c0ffee0003'') \<notin> doc_id ` set (announcements_collection school)"
    by (simp add: school_ids)
  then show ?thesis
    using known_mrodriguez py_iso_ok py_iso_empty py_dates_empty_start
    by (simp add: create_known [OF known_mrodriguez] called_simps opt_str_def)
      (simp add: school_def)
qed

text \<open>
  Claim C4, amended. When the username is known and the end date, or a supplied
  non-empty start date, does not parse (after \<^verbatim>\<open>Z\<close> is replaced by \<^verbatim>\<open>+00:00\<close>),
  create fails with status 400 (invalid date format) and leaves the announcements
  collection unchanged; so does update when, in addition, the identifier is valid.
\<close>

theorem unparseable_dates_rejected:
  assumes "known_user st username"
    and "\<not> fromisoformat l (replace_Z end_date) \<or>
         (\<exists>s. start_date = Some s \<and> s \<noteq> [] \<and> \<not> fromisoformat l (replace_Z s))"
  shows "fst (create_announcement l message end_date username start_date now new_id st)
           = Inl (HTTPException 400 ''Invalid date format'') \<and>
         announcements_collection
           (snd (create_announcement l message end_date username start_date now new_id st))
           = announcements_collection st \<and>
         (ObjectId l announcement_id \<noteq> None \<longrightarrow>
            fst (update_announcement l announcement_id message end_date username start_date st)
              = Inl (HTTPException 400 ''Invalid date format'') \<and>
            announcements_collection
              (snd (update_announcement l announcement_id message end_date username start_date st))
              = announcements_collection st)"
proof -
  note bad = dates_parse_bad [OF assms(2)]
  have c: "create_announcement l message end_date username start_date now new_id st =
      (Inl (HTTPException 400 ''Invalid date format''), called (FindOne Teachers) st)"
    using bad by (simp add: create_known [OF assms(1)])
  have u: "ObjectId l announcement_id \<noteq> None \<Longrightarrow>
      update_announcement l announcement_id message end_date username start_date st =
      (Inl (HTTPException 400 ''Invalid date format''), called (FindOne Teachers) st)"
    using update_known_bad_dates [OF assms(1) _ bad] by auto
  show ?thesis
    using u by (auto simp: c called_simps)
qed

theorem unparseable_dates_rejected_witness:
  "known_user school ''mrodriguez'' \<and> \<not> fromisoformat py (replace_Z ''tomorrow'') \<and>
   ObjectId py ''65F1C0FFEE65F1C0FFEE0002'' \<noteq> None \<and>
   fst (create_announcement py ''Picnic'' ''tomorrow'' ''mrodriguez'' None
          ''2025-01-01T00:00:00'' (Oid ''65f1c0ffee65f1c0ffee0003'') school)
     = Inl (HTTPException 400 ''Invalid date format'') \<and>
   announcements_collection
     (snd (create_announcement py ''Picnic'' ''tomorrow'' ''mrodriguez'' None
          ''2025-01-01T00:00:00'' (Oid ''65f1c0ffee65f1c0ffee0003'') school))
     = [science_fair, exam_week] \<and>
   fst (update_announcement py ''65F1C0FFEE65F1C0FFEE0002'' ''Picnic'' ''tomorrow'' ''mrodriguez''
          None school)
     = Inl (HTTPException 400 ''Invalid date format'') \<and>
   announcements_collection
     (snd (update_announcement py ''65F1C0FFEE65F1C0FFEE0002'' ''Picnic'' ''tomorrow''
          ''mrodriguez'' None school))
     = [science_fair, exam_week]"
proof -
  have bad: "\<not> fromisoformat py (replace_Z ''tomorrow'') \<or>
      (\<exists>s. (None :: string option) = Some s \<and> s \<noteq> [] \<and> \<not> fromisoformat py (replace_Z s))"
    using py_iso_word by simp
  have ok: "ObjectId py ''65F1C0FFEE65F1C0FFEE0002'' \<noteq> None"
    by (simp add: py_good_id)
  from unparseable_dates_rejected [OF known_mrodriguez bad, of "''Picnic''"
      "''2025-01-01T00:00:00''" "Oid ''65f1c0ffee65f1c0ffee0003''" "''65F1C0FFEE65F1C0FFEE0002''"]
    known_mrodriguez py_iso_word ok
  show ?thesis by (simp add: school_def)
qed

text \<open>
  Claim C7. The claim reads: update or delete with a valid identifier that matches no
  record, the username being known, fails with status 404. On the code update validates
  the dates before it reaches the store, so with an unparseable end date the answer is
  400 although the identifier matches nothing:
\<close>

theorem absent_id_bad_date_counterexample:
  "known_user school ''mrodriguez'' \<and>
   ObjectId py ''65f1c0ffee65f1c0ffee0009'' = Some (Oid ''65f1c0ffee65f1c0ffee0009'') \<and>
   OidV (Oid ''65f1c0ffee65f1c0ffee0009'') \<notin> doc_id ` set (announcements_collection school) \<and>
   fst (update_announcement py ''65f1c0ffee65f1c0ffee0009'' ''Picnic'' ''tomorrow'' ''mrodriguez''
          None school)
     = Inl (HTTPException 400 ''Invalid date format'')"
  using known_mrodriguez py_absent_id
  by (simp add: update_known_bad_dates [OF known_mrodriguez py_absent_id py_dates_word] school_ids)

text \<open>
  Claim C7, amended. When the username is known and the identifier is valid and matches
  no record, delete fails with status 404 and leaves the collection unchanged, and
  update fails with status 404 provided its dates pass the date validation.
\<close>

theorem absent_id_not_found:
  assumes "known_user st username" and "ObjectId l announcement_id = Some obj_id"
    and "OidV obj_id \<notin> doc_id ` set (announcements_collection st)"
  shows "(dates_parse l end_date start_date \<longrightarrow>
            fst (update_announcement l announcement_id message end_date username start_date st)
              = Inl (HTTPException 404 ''Announcement not found'')) \<and>
         fst (delete_announcement l announcement_id username st)
           = Inl (HTTPException 404 ''Announcement not found'') \<and>
         announcements_collection (snd (delete_announcement l announcement_id username st))
           = announcements_collection st"
  using update_known_absent [OF assms(1,2) _ assms(3), of end_date start_date message]
  by (simp add: delete_known_absent [OF assms] called_simps)

theorem absent_id_not_found_witness:
  "known_user school ''mrodriguez'' \<and>
   ObjectId py ''65f1c0ffee65f1c0ffee0009'' = Some (Oid ''65f1c0ffee65f1c0ffee0009'') \<and>
   OidV (Oid ''65f1c0ffee65f1c0ffee0009'') \<notin> doc_id ` set (announcements_collection school) \<and>
   dates_parse py ''2030-06-30T00:00:00Z'' None \<and>
   fst (update_announcement py ''65f1c0ffee65f1c0ffee0009'' ''Picnic'' ''2030-06-30T00:00:00Z''
          ''mrodriguez'' None school)
     = Inl (HTTPException 404 ''Announcement not found'') \<and>
   fst (delete_announcement py ''65f1c0ffee65f1c0ffee0009'' ''mrodriguez'' school)
     = Inl (HTTPException 404 ''Announcement not found'') \<and>
   announcements_collection (snd (delete_announcement py ''65f1c0ffee65f1c0ffee0009'' ''mrodriguez'' school))
     = [science_fair, exam_week]"
proof -
  have absent: "OidV (Oid ''65f1c0ffee65f1c0ffee0009'') \<notin> doc_id ` set (announcements_collection school)"
    by (simp add: school_ids)
  from absent_id_not_found [OF known_mrodriguez py_absent_id absent,
      of "''2030-06-30T00:00:00Z''" None "''Picnic''"]
    known_mrodriguez py_absent_id absent py_dates_ok
  show ?thesis by (simp add: school_def)
qed

text \<open>
  Claim C5. After a successful update the collection differs from the one before in one
  record only, the first whose identifier is the given one. That record keeps its
  identifier; its fields \<^verbatim>\<open>message\<close>, \<^verbatim>\<open>start_date\<close> and \<^verbatim>\<open>end_date\<close> hold the
  arguments; every other field, \<^verbatim>\<open>created_by\<close> and \<^verbatim>\<open>created_at\<close> among them, is as
  before. The teachers collection is unchanged, and the answer is the updated record.
\<close>

theorem update_announcement_frame:
  assumes "fst (update_announcement l announcement_id message end_date username start_date st) = Inr r"
  shows "\<exists>obj_id pre d d' post.
      ObjectId l announcement_id = Some obj_id \<and>
      announcements_collection st = pre @ d # post \<and>
      (\<forall>x\<in>set pre. doc_id x \<noteq> OidV obj_id) \<and> doc_id d = OidV obj_id \<and>
      announcements_collection
        (snd (update_announcement l announcement_id message end_date username start_date st))
        = pre @ d' # post \<and>
      teachers_collection
        (snd (update_announcement l announcement_id message end_date username start_date st))
        = teachers_collection st \<and>
      doc_id d' = doc_id d \<and>
      field d' ''message'' = Some (Str message) \<and>
      field d' ''start_date'' = Some (opt_str start_date) \<and>
      field d' ''end_date'' = Some (Str end_date) \<and>
      field d' ''created_by'' = field d ''created_by'' \<and>
      field d' ''created_at'' = field d ''created_at'' \<and>
      (\<forall>k. k \<notin> {''message'', ''start_date'', ''end_date''} \<longrightarrow> field d' k = field d k) \<and>
      r = stringify_id d'"
proof -
  let ?call = "update_announcement l announcement_id message end_date username start_date st"
  let ?upd = "[(''message'', Str message), (''start_date'', opt_str start_date),
               (''end_date'', Str end_date)]"
  from assms have "?call = (Inr r, snd ?call)"
    by (metis prod.collapse)
  from update_success [OF this] obtain i pre d post where
    h: "ObjectId l announcement_id = Some i" "announcements_collection st = pre @ d # post"
       "\<forall>x\<in>set pre. doc_id x \<noteq> OidV i" "doc_id d = OidV i"
       "announcements_collection (snd ?call) = pre @ set_fields ?upd d # post"
       "teachers_collection (snd ?call) = teachers_collection st"
       "r = stringify_id (set_fields ?upd d)"
    by blast
  have f: "doc_id (set_fields ?upd d) = doc_id d"
    "field (set_fields ?upd d) ''message'' = Some (Str message)"
    "field (set_fields ?upd d) ''start_date'' = Some (opt_str start_date)"
    "field (set_fields ?upd d) ''end_date'' = Some (Str end_date)"
    "field (set_fields ?upd d) ''created_by'' = field d ''created_by''"
    "field (set_fields ?upd d) ''created_at'' = field d ''created_at''"
    by (simp_all add: doc_id_set_fields field_set_fields3)
  have g: "\<forall>k. k \<notin> {''message'', ''start_date'', ''end_date''} \<longrightarrow>
      field (set_fields ?upd d) k = field d k"
    by (simp add: field_set_fields3 field_id)
  from h f g show ?thesis by blast
qed

lemma school_split: "announcements_collection school = [science_fair] @ exam_week # []"
  by (simp add: school_def)

lemma update_example:
  "update_announcement py ''65F1C0FFEE65F1C0FFEE0002'' ''Exams moved'' ''2030-06-30T00:00:00Z''
      ''mrodriguez'' None school =
   (Inr (stringify_id (set_fields [(''message'', Str ''Exams moved''), (''start_date'', opt_str None),
        (''end_date'', Str ''2030-06-30T00:00:00Z'')] exam_week)),
    called (FindOne Announcements) (called (UpdateOne Announcements)
      ((called (FindOne Teachers) school)\<lparr>announcements_collection :=
         [science_fair] @ set_fields [(''message'', Str ''Exams moved''), (''start_date'', opt_str None),
        (''end_date'', Str ''2030-06-30T00:00:00Z'')] exam_week # []\<rparr>)))"
proof (rule update_known_present [OF known_mrodriguez py_good_id py_dates_ok school_split _ _ refl])
  show "\<forall>x\<in>set [science_fair]. doc_id x \<noteq> OidV (Oid ''65f1c0ffee65f1c0ffee0002'')"
    by (simp add: science_fair_def)
  show "doc_id exam_week = OidV (Oid ''65f1c0ffee65f1c0ffee0002'')"
    by (simp add: exam_week_def)
qed

theorem update_announcement_frame_witness:
  "fst (update_announcement py ''65F1C0FFEE65F1C0FFEE0002'' ''Exams moved'' ''2030-06-30T00:00:00Z''
      ''mrodriguez'' None school)
     = Inr [(''_id'', Str ''65f1c0ffee65f1c0ffee0002''),
            (''message'', Str ''Exams moved''),
            (''start_date'', Null),
            (''end_date'', Str ''2030-06-30T00:00:00Z''),
            (''created_by'', Str ''mrodriguez''),
            (''created_at'', Str ''2024-03-05T09:30:00'')] \<and>
   (\<exists>obj_id pre d d' post.
      ObjectId py ''65F1C0FFEE65F1C0FFEE0002'' = Some obj_id \<and>
      announcements_collection school = pre @ d # post \<and>
      (\<forall>x\<in>set pre. doc_id x \<noteq> OidV obj_id) \<and> doc_id d = OidV obj_id \<and>
      announcements_collection
        (snd (update_announcement py ''65F1C0FFEE65F1C0FFEE0002'' ''Exams moved''
           ''2030-06-30T00:00:00Z'' ''mrodriguez'' None school))
        = pre @ d' # post \<and>
      teachers_collection
        (snd (update_announcement py ''65F1C0FFEE65F1C0FFEE0002'' ''Exams moved''
           ''2030-06-30T00:00:00Z'' ''mrodriguez'' None school))
        = teachers_collection school \<and>
      doc_id d' = doc_id d \<and>
      field d' ''message'' = Some (Str ''Exams moved'') \<and>
      field d' ''start_date'' = Some (opt_str None) \<and>
      field d' ''end_date'' = Some (Str ''2030-06-30T00:00:00Z'') \<and>
      field d' ''created_by'' = field d ''created_by'' \<and>
      field d' ''created_at'' = field d ''created_at'' \<and>
      (\<forall>k. k \<notin> {''message'', ''start_date'', ''end_date''} \<longrightarrow> field d' k = field d k) \<and>
      [(''_id'', Str ''65f1c0ffee65f1c0ffee0002''),
       (''message'', Str ''Exams moved''),
       (''start_date'', Null),
       (''end_date'', Str ''2030-06-30T00:00:00Z''),
       (''created_by'', Str ''mrodriguez''),
       (''created_at'', Str ''2024-03-05T09:30:00'')] = stringify_id d')"
proof -
  have h: "fst (update_announcement py ''65F1C0FFEE65F1C0FFEE0002'' ''Exams moved''
        ''2030-06-30T00:00:00Z'' ''mrodriguez'' None school)
     = Inr [(''_id'', Str ''65f1c0ffee65f1c0ffee0002''),
            (''message'', Str ''Exams moved''),
            (''start_date'', Null),
            (''end_date'', Str ''2030-06-30T00:00:00Z''),
            (''created_by'', Str ''mrodriguez''),
            (''created_at'', Str ''2024-03-05T09:30:00'')]"
    by (simp add: update_example)
      (simp add: stringify_id_eq set_fields_def exam_week_def opt_str_def)
  from h update_announcement_frame [OF h] show ?thesis
    by (rule conjI)
qed

lemma sort_rank_Str: "sort_rank (Some (Str t)) \<le> sort_rank (Some (Str s)) \<longleftrightarrow> t \<le> s"
  by auto

text \<open>
  Claim C6. \<^verbatim>\<open>get_all_announcements\<close> answers with every announcement of the store,
  each once per occurrence, ordered by \<^verbatim>\<open>created_at\<close> descending: for positions
  \<open>i < j\<close> of the answer the \<^verbatim>\<open>created_at\<close> at \<open>j\<close> is at most the one at \<open>i\<close> in
  the store's order, which for two strings is the lexicographic order.
\<close>

theorem get_all_announcements_sorted:
  "\<exists>out. fst (get_all_announcements st) = Inr out \<and>
     mset out = mset (map stringify_id (announcements_collection st)) \<and>
     (\<forall>i j. i < j \<and> j < length out \<longrightarrow>
        sort_rank (map_of (out ! j) ''created_at'') \<le> sort_rank (map_of (out ! i) ''created_at'')) \<and>
     (\<forall>i j s t. i < j \<and> j < length out \<and>
        map_of (out ! i) ''created_at'' = Some (Str s) \<and>
        map_of (out ! j) ''created_at'' = Some (Str t) \<longrightarrow> t \<le> s)"
proof -
  let ?key = "\<lambda>x. sort_rank (map_of x ''created_at'')"
  let ?ds = "sort_desc ''created_at'' (announcements_collection st)"
  let ?out = "map stringify_id ?ds"
  have res: "fst (get_all_announcements st) = Inr ?out"
    by (simp add: get_all_announcements_eq)
  have all: "mset ?out = mset (map stringify_id (announcements_collection st))"
    by (simp add: mset_sort_desc)
  have key: "?key (stringify_id d) = sort_rank (field d ''created_at'')" for d
    by (simp add: map_of_stringify_id)
  have "sorted_wrt (\<lambda>a b. ?key b \<le> ?key a) ?out"
    using sort_desc_sorted [of "''created_at''" "announcements_collection st"]
    by (simp add: sorted_wrt_map key)
  then have ord: "\<forall>i j. i < j \<and> j < length ?out \<longrightarrow> ?key (?out ! j) \<le> ?key (?out ! i)"
    by (simp add: sorted_wrt_iff_nth_less)
  have str: "\<forall>i j s t. i < j \<and> j < length ?out \<and>
        map_of (?out ! i) ''created_at'' = Some (Str s) \<and>
        map_of (?out ! j) ''created_at'' = Some (Str t) \<longrightarrow> t \<le> s"
  proof (intro allI impI)
    fix i j s t
    assume a: "i < j \<and> j < length ?out \<and>
        map_of (?out ! i) ''created_at'' = Some (Str s) \<and>
        map_of (?out ! j) ''created_at'' = Some (Str t)"
    then have ei: "map_of (?out ! i) ''created_at'' = Some (Str s)"
      and ej: "map_of (?out ! j) ''created_at'' = Some (Str t)"
      by blast+
    from a ord have "?key (?out ! j) \<le> ?key (?out ! i)" by blast
    then have "sort_rank (Some (Str t)) \<le> sort_rank (Some (Str s))"
      unfolding ei ej .
    then show "t \<le> s" by (simp only: sort_rank_Str)
  qed
  from res all ord str show ?thesis by blast
qed

lemma school_sorted:
  "sort_desc ''created_at'' (announcements_collection school) = [exam_week, science_fair]"
  by (simp add: sort_desc_def school_def field_def to_dict_def science_fair_def exam_week_def)

theorem get_all_announcements_sorted_witness:
  "fst (get_all_announcements school) = Inr [stringify_id exam_week, stringify_id science_fair] \<and>
   map_of (stringify_id exam_week) ''created_at'' = Some (Str ''2024-03-05T09:30:00'') \<and>
   map_of (stringify_id science_fair) ''created_at'' = Some (Str ''2024-01-10T08:00:00'') \<and>
   (''2024-01-10T08:00:00'' :: string) \<le> ''2024-03-05T09:30:00''"
proof -
  let ?out = "[stringify_id exam_week, stringify_id science_fair]"
  have res: "fst (get_all_announcements school) = Inr ?out"
    by (simp add: get_all_announcements_eq school_sorted)
  have e: "map_of (?out ! 0) ''created_at'' = Some (Str ''2024-03-05T09:30:00'')"
    by (simp add: stringify_id_eq exam_week_def)
  have f: "map_of (?out ! 1) ''created_at'' = Some (Str ''2024-01-10T08:00:00'')"
    by (simp add: stringify_id_eq science_fair_def)
  from get_all_announcements_sorted [of school] obtain out where
    o: "fst (get_all_announcements school) = Inr out"
    and s: "\<forall>i j s t. i < j \<and> j < length out \<and>
        map_of (out ! i) ''created_at'' = Some (Str s) \<and>
        map_of (out ! j) ''created_at'' = Some (Str t) \<longrightarrow> t \<le> s"
    by (elim exE conjE)
  from o res have out: "out = ?out" by simp
  have "(0::nat) < 1 \<and> 1 < length ?out \<and>
        map_of (?out ! 0) ''created_at'' = Some (Str ''2024-03-05T09:30:00'') \<and>
        map_of (?out ! 1) ''created_at'' = Some (Str ''2024-01-10T08:00:00'')"
    using e f by simp
  with s [unfolded out, rule_format, of 0 1 "''2024-03-05T09:30:00''" "''2024-01-10T08:00:00''"]
  have le: "(''2024-01-10T08:00:00'' :: string) \<le> ''2024-03-05T09:30:00''" .
  from e f have e': "map_of (stringify_id exam_week) ''created_at'' = Some (Str ''2024-03-05T09:30:00'')"
    and f': "map_of (stringify_id science_fair) ''created_at'' = Some (Str ''2024-01-10T08:00:00'')"
    by simp_all
  from res e' f' le show ?thesis by (intro conjI)
qed

subsection \<open>Successful create\<close>

lemma create_success:
  assumes "fst (create_announcement l m e u s now i st) = Inr r"
  shows "r = [(''message'', Str m), (''start_date'', opt_str s), (''end_date'', Str e),
              (''created_by'', Str u), (''created_at'', Str now),
              (''_id'', Str (py_str (OidV i)))] \<and>
         announcements_collection (snd (create_announcement l m e u s now i st)) =
           announcements_collection st @
             [\<lparr>doc_id = OidV i,
               doc_fields = [(''message'', Str m), (''start_date'', opt_str s),
                 (''end_date'', Str e), (''created_by'', Str u), (''created_at'', Str now)]\<rparr>]"
proof -
  from assms have known: "known_user st u"
    using create_unauthorized [of st u l m e s now i] by (cases "known_user st u") auto
  from assms have dates: "dates_parse l e s"
    by (cases "dates_parse l e s") (auto simp: create_known [OF known])
  from assms dates have fresh: "OidV i \<notin> doc_id ` set (announcements_collection st)"
    by (cases "OidV i \<in> doc_id ` set (announcements_collection st)")
      (auto simp: create_known [OF known])
  from assms show ?thesis
    by (simp add: create_known [OF known] dates fresh called_simps)
qed

text \<open>
  Claim C8. After a successful create without start date, \<^verbatim>\<open>get_all_announcements\<close>
  on the resulting store answers with a list that holds a record with the identifier
  returned by create, the message and end date given, \<^verbatim>\<open>start_date\<close> \<^verbatim>\<open>None\<close> and
  \<^verbatim>\<open>created_by\<close> the username.
\<close>

theorem create_then_get_all:
  assumes "fst (create_announcement l message end_date username None now new_id st) = Inr r"
  shows "map_of r ''_id'' = Some (Str (py_str (OidV new_id))) \<and>
         (\<exists>out. fst (get_all_announcements
                   (snd (create_announcement l message end_date username None now new_id st)))
                 = Inr out \<and>
            (\<exists>d\<in>set out.
               map_of d ''_id'' = map_of r ''_id'' \<and>
               map_of d ''message'' = Some (Str message) \<and>
               map_of d ''end_date'' = Some (Str end_date) \<and>
               map_of d ''start_date'' = Some Null \<and>
               map_of d ''created_by'' = Some (Str username)))"
proof -
  let ?st1 = "snd (create_announcement l message end_date username None now new_id st)"
  let ?new = "\<lparr>doc_id = OidV new_id,
      doc_fields = [(''message'', Str message), (''start_date'', opt_str None),
        (''end_date'', Str end_date), (''created_by'', Str username),
        (''created_at'', Str now)]\<rparr>"
  let ?out = "map stringify_id (sort_desc ''created_at'' (announcements_collection ?st1))"
  from create_success [OF assms] have r: "r = [(''message'', Str message),
      (''start_date'', opt_str None), (''end_date'', Str end_date),
      (''created_by'', Str username), (''created_at'', Str now),
      (''_id'', Str (py_str (OidV new_id)))]"
    and a: "announcements_collection ?st1 = announcements_collection st @ [?new]"
    by simp_all
  have rid: "map_of r ''_id'' = Some (Str (py_str (OidV new_id)))"
    by (simp add: r)
  have res: "fst (get_all_announcements ?st1) = Inr ?out"
    by (simp add: get_all_announcements_eq)
  have "?new \<in> set (sort_desc ''created_at'' (announcements_collection ?st1))"
    by (simp add: set_sort_desc a)
  then have mem: "stringify_id ?new \<in> set ?out"
    unfolding set_map by (rule imageI)
  have props: "map_of (stringify_id ?new) ''_id'' = map_of r ''_id'' \<and>
      map_of (stringify_id ?new) ''message'' = Some (Str message) \<and>
      map_of (stringify_id ?new) ''end_date'' = Some (Str end_date) \<and>
      map_of (stringify_id ?new) ''start_date'' = Some Null \<and>
      map_of (stringify_id ?new) ''created_by'' = Some (Str username)"
    by (simp add: rid stringify_id_eq opt_str_def)
  have "\<exists>d\<in>set ?out.
      map_of d ''_id'' = map_of r ''_id'' \<and>
      map_of d ''message'' = Some (Str message) \<and>
      map_of d ''end_date'' = Some (Str end_date) \<and>
      map_of d ''start_date'' = Some Null \<and>
      map_of d ''created_by'' = Some (Str username)"
    by (rule bexI [OF _ mem]) (rule props)
  with rid res show ?thesis by (intro conjI exI)
qed

lemma create_example:
  "fst (create_announcement py ''Picnic'' ''2030-06-30T00:00:00Z'' ''mrodriguez'' None
          ''2025-01-01T00:00:00'' (Oid ''65f1c0ffee65f1c0ffee0003'') school)
     = Inr [(''message'', Str ''Picnic''), (''start_date'', Null),
            (''end_date'', Str ''2030-06-30T00:00:00Z''), (''created_by'', Str ''mrodriguez''),
            (''created_at'', Str ''2025-01-01T00:00:00''),
            (''_id'', Str ''65f1c0ffee65f1c0ffee0003'')]"
proof -
  have "OidV (Oid ''65f1c0ffee65f1c0ffee0003'') \<notin> doc_id ` set (announcements_collection school)"
    by (simp add: school_ids)
  then show ?thesis
    using py_dates_ok by (simp add: create_known [OF known_mrodriguez] opt_str_def)
qed

theorem create_then_get_all_witness:
  "fst (create_announcement py ''Picnic'' ''2030-06-30T00:00:00Z'' ''mrodriguez'' None
          ''2025-01-01T00:00:00'' (Oid ''65f1c0ffee65f1c0ffee0003'') school)
     = Inr [(''message'', Str ''Picnic''), (''start_date'', Null),
            (''end_date'', Str ''2030-06-30T00:00:00Z''), (''created_by'', Str ''mrodriguez''),
            (''created_at'', Str ''2025-01-01T00:00:00''),
            (''_id'', Str ''65f1c0ffee65f1c0ffee0003'')] \<and>
   (\<exists>out. fst (get_all_announcements
             (snd (create_announcement py ''Picnic'' ''2030-06-30T00:00:00Z'' ''mrodriguez'' None
                ''2025-01-01T00:00:00'' (Oid ''65f1c0ffee65f1c0ffee0003'') school)))
           = Inr out \<and>
      (\<exists>d\<in>set out.
         map_of d ''_id'' = Some (Str ''65f1c0ffee65f1c0ffee0003'') \<and>
         map_of d ''message'' = Some (Str ''Picnic'') \<and>
         map_of d ''end_date'' = Some (Str ''2030-06-30T00:00:00Z'') \<and>
         map_of d ''start_date'' = Some Null \<and>
         map_of d ''created_by'' = Some (Str ''mrodriguez'')))"
proof -
  note h = create_example
  have id: "map_of [(''message'', Str ''Picnic''), (''start_date'', Null),
            (''end_date'', Str ''2030-06-30T00:00:00Z''), (''created_by'', Str ''mrodriguez''),
            (''created_at'', Str ''2025-01-01T00:00:00''),
            (''_id'', Str ''65f1c0ffee65f1c0ffee0003'')] ''_id''
        = Some (Str ''65f1c0ffee65f1c0ffee0003'')"
    by simp
  from create_then_get_all [OF h, unfolded id] have
    "\<exists>out. fst (get_all_announcements
             (snd (create_announcement py ''Picnic'' ''2030-06-30T00:00:00Z'' ''mrodriguez'' None
                ''2025-01-01T00:00:00'' (Oid ''65f1c0ffee65f1c0ffee0003'') school)))
           = Inr out \<and>
      (\<exists>d\<in>set out.
         map_of d ''_id'' = Some (Str ''65f1c0ffee65f1c0ffee0003'') \<and>
         map_of d ''message'' = Some (Str ''Picnic'') \<and>
         map_of d ''end_date'' = Some (Str ''2030-06-30T00:00:00Z'') \<and>
         map_of d ''start_date'' = Some Null \<and>
         map_of d ''created_by'' = Some (Str ''mrodriguez''))"
    by (rule conjunct2)
  with h show ?thesis by (rule conjI)
qed

lemma null_start_date_branch:
  assumes "field d ''start_date'' = Some Null" and "field d ''end_date'' = Some (Str e)"
  shows "matches (Field ''start_date'' (Eq Null)) d"
    and "\<not> matches (Field ''start_date'' (Lte (Str t))) d"
    and "matches (active_query t) d \<longleftrightarrow> t \<le> e"
  using assms
  by (simp_all add: holds_Lte_Str matches_active_query end_date_ok_def start_date_ok_def)

text \<open>
  Claim C9. A successful create appends one record, and that record has a
  \<^verbatim>\<open>start_date\<close> field: the string given, or an explicit null when the argument is
  omitted. In the latter case the record satisfies the branch
  \<^verbatim>\<open>{"start_date": None}\<close> of the query of \<^verbatim>\<open>get_active_announcements\<close> and never the
  branch \<^verbatim>\<open>{"start_date": {"$lte": t}}\<close>, so that it is active exactly when its end
  date is at or after the current time.
\<close>

theorem create_stores_start_date:
  assumes "fst (create_announcement l message end_date username start_date now new_id st) = Inr r"
  shows "\<exists>d. announcements_collection
               (snd (create_announcement l message end_date username start_date now new_id st))
             = announcements_collection st @ [d] \<and>
           map_of (doc_fields d) ''start_date'' = Some (opt_str start_date) \<and>
           (start_date = None \<longrightarrow>
              map_of (doc_fields d) ''start_date'' = Some Null \<and>
              matches (Field ''start_date'' (Eq Null)) d \<and>
              (\<forall>t. \<not> matches (Field ''start_date'' (Lte (Str t))) d) \<and>
              (\<forall>t. matches (active_query t) d \<longleftrightarrow> t \<le> end_date))"
proof -
  let ?new = "\<lparr>doc_id = OidV new_id,
      doc_fields = [(''message'', Str message), (''start_date'', opt_str start_date),
        (''end_date'', Str end_date), (''created_by'', Str username),
        (''created_at'', Str now)]\<rparr>"
  from create_success [OF assms] have
    a: "announcements_collection
          (snd (create_announcement l message end_date username start_date now new_id st))
        = announcements_collection st @ [?new]"
    by simp
  have f: "map_of (doc_fields ?new) ''start_date'' = Some (opt_str start_date)"
    by simp
  have sd: "field ?new ''start_date'' = Some (opt_str start_date)"
    and ed: "field ?new ''end_date'' = Some (Str end_date)"
    by (simp_all add: field_def to_dict_def)
  have n: "start_date = None \<longrightarrow>
      map_of (doc_fields ?new) ''start_date'' = Some Null \<and>
      matches (Field ''start_date'' (Eq Null)) ?new \<and>
      (\<forall>t. \<not> matches (Field ''start_date'' (Lte (Str t))) ?new) \<and>
      (\<forall>t. matches (active_query t) ?new \<longleftrightarrow> t \<le> end_date)"
  proof
    assume none: "start_date = None"
    have sd0: "field ?new ''start_date'' = Some Null"
      using sd by (simp add: none opt_str_def)
    have f0: "map_of (doc_fields ?new) ''start_date'' = Some Null"
      using f by (simp add: none opt_str_def)
    note b = null_start_date_branch [OF sd0 ed]
    from f0 b(1) b(2) b(3) show "map_of (doc_fields ?new) ''start_date'' = Some Null \<and>
      matches (Field ''start_date'' (Eq Null)) ?new \<and>
      (\<forall>t. \<not> matches (Field ''start_date'' (Lte (Str t))) ?new) \<and>
      (\<forall>t. matches (active_query t) ?new \<longleftrightarrow> t \<le> end_date)"
      by (intro conjI allI)
  qed
  from a f n show ?thesis by blast
qed

theorem create_stores_start_date_witness:
  "fst (create_announcement py ''Picnic'' ''2030-06-30T00:00:00Z'' ''mrodriguez'' None
          ''2025-01-01T00:00:00'' (Oid ''65f1c0ffee65f1c0ffee0003'') school)
     = Inr [(''message'', Str ''Picnic''), (''start_date'', Null),
            (''end_date'', Str ''2030-06-30T00:00:00Z''), (''created_by'', Str ''mrodriguez''),
            (''created_at'', Str ''2025-01-01T00:00:00''),
            (''_id'', Str ''65f1c0ffee65f1c0ffee0003'')] \<and>
   (\<exists>d. announcements_collection
          (snd (create_announcement py ''Picnic'' ''2030-06-30T00:00:00Z'' ''mrodriguez'' None
             ''2025-01-01T00:00:00'' (Oid ''65f1c0ffee65f1c0ffee0003'') school))
        = announcements_collection school @ [d] \<and>
      map_of (doc_fields d) ''start_date'' = Some Null \<and>
      matches (Field ''start_date'' (Eq Null)) d \<and>
      \<not> matches (Field ''start_date'' (Lte (Str ''2025-01-01T00:00:00''))) d \<and>
      matches (active_query ''2025-01-01T00:00:00'') d)"
proof -
  note h = create_example
  from create_stores_start_date [OF h] obtain d where
    a: "announcements_collection
          (snd (create_announcement py ''Picnic'' ''2030-06-30T00:00:00Z'' ''mrodriguez'' None
             ''2025-01-01T00:00:00'' (Oid ''65f1c0ffee65f1c0ffee0003'') school))
        = announcements_collection school @ [d]"
    and n: "(None :: string option) = None \<longrightarrow>
      map_of (doc_fields d) ''start_date'' = Some Null \<and>
      matches (Field ''start_date'' (Eq Null)) d \<and>
      (\<forall>t. \<not> matches (Field ''start_date'' (Lte (Str t))) d) \<and>
      (\<forall>t. matches (active_query t) d \<longleftrightarrow> t \<le> ''2030-06-30T00:00:00Z'')"
    by (elim exE conjE)
  from n have n1: "map_of (doc_fields d) ''start_date'' = Some Null"
    and n2: "matches (Field ''start_date'' (Eq Null)) d"
    and n3: "\<forall>t. \<not> matches (Field ''start_date'' (Lte (Str t))) d"
    and n4: "\<forall>t. matches (active_query t) d \<longleftrightarrow> t \<le> ''2030-06-30T00:00:00Z''"
    by blast+
  have le: "(''2025-01-01T00:00:00'' :: string) \<le> ''2030-06-30T00:00:00Z''"
    by simp
  from n4 le have n5: "matches (active_query ''2025-01-01T00:00:00'') d"
    by (simp only: )
  from n3 have n6: "\<not> matches (Field ''start_date'' (Lte (Str ''2025-01-01T00:00:00''))) d"
    by (rule spec)
  from a n1 n2 n6 n5 have "\<exists>d. announcements_collection
          (snd (create_announcement py ''Picnic'' ''2030-06-30T00:00:00Z'' ''mrodriguez'' None
             ''2025-01-01T00:00:00'' (Oid ''65f1c0ffee65f1c0ffee0003'') school))
        = announcements_collection school @ [d] \<and>
      map_of (doc_fields d) ''start_date'' = Some Null \<and>
      matches (Field ''start_date'' (Eq Null)) d \<and>
      \<not> matches (Field ''start_date'' (Lte (Str ''2025-01-01T00:00:00''))) d \<and>
      matches (active_query ''2025-01-01T00:00:00'') d"
    by (intro exI conjI)
  with h show ?thesis by (rule conjI)
qed

end
